theory Spec2Isabelle
  imports Main
begin

section \<open>Data model\<close>

text \<open>
  The connect service of \<^verbatim>\<open>src/connect/service.go\<close> acknowledges the responses of
  managed devices. It owns no state: it calls four stores (commands, devices,
  applications, certificates) through Go interfaces. Go's \<^verbatim>\<open>(value, error)\<close> returns are
  pairs or sums, and every store call takes the world and returns the new one.
\<close>

datatype error =
    CommandNotFound
  | DeviceNotFound
  | StoreUnavailable
  | ErrorsNew string
  | ErrorsWrap error string
  | FmtErrorf string error
  | FmtErrorfStr string "string list"

text \<open>\<^verbatim>\<open>sql.NullString\<close> and \<^verbatim>\<open>sql.NullInt64\<close>: a value and its validity flag.\<close>

record NullString =
  NS_String :: string
  NS_Valid :: bool

record NullInt64 =
  NI_Int64 :: int
  NI_Valid :: bool

text \<open>
  \<^verbatim>\<open>Scan(value)\<close> of the two nullable types stores a null for a nil interface value and
  marks every other value valid. The service hands \<^verbatim>\<open>Scan\<close> a field of a decoded
  response struct (a string, a number), never a nil interface, so the result is valid.
\<close>

definition NullString_Scan :: "string \<Rightarrow> NullString" where
  "NullString_Scan s = \<lparr>NS_String = s, NS_Valid = True\<rparr>"

definition NullInt64_Scan :: "int \<Rightarrow> NullInt64" where
  "NullInt64_Scan n = \<lparr>NI_Int64 = n, NI_Valid = True\<rparr>"

text \<open>
  The parts of \<^verbatim>\<open>mdm.Response\<close> that the service reads. The fields of a decoded
  response are plain Go values: a key that the device left out is the zero value of its
  field, the empty string or the number 0. Lines 163 to 165 test the three strings of an
  entry against the empty string; the two sizes go to \<^verbatim>\<open>Scan\<close> as they are.
\<close>

record QueryResponses =
  qr_SerialNumber :: string
  qr_ProductName :: string
  qr_BuildVersion :: string
  qr_DeviceName :: string
  qr_IMEI :: string
  qr_MEID :: string
  qr_Model :: string
  qr_OSVersion :: string

record InstalledApplicationListItem =
  it_Name :: string
  it_Identifier :: string
  it_ShortVersion :: string
  it_Version :: string
  it_BundleSize :: int
  it_DynamicSize :: int

record CertificateListItem =
  ci_CommonName :: string
  ci_IsIdentity :: bool
  ci_Data :: "nat list"

record Response =
  r_UDID :: string
  r_CommandUUID :: string
  r_QueryResponses :: QueryResponses
  r_InstalledApplicationList :: "InstalledApplicationListItem list"
  r_CertificateList :: "CertificateListItem list"

text \<open>\<^verbatim>\<open>mdm.CommandRequest\<close> and \<^verbatim>\<open>mdm.Payload\<close> (the request body is opaque here).\<close>

record CommandRequest =
  cr_UDID :: string
  cr_RequestType :: string

record Command =
  RequestType :: string

record Payload =
  CommandUUID :: string
  Command :: Command

definition zero_Payload :: Payload where
  "zero_Payload = \<lparr>CommandUUID = [], Command = \<lparr>RequestType = []\<rparr>\<rparr>"

text \<open>
  The JSON encoding of the query responses is kept as the value it encodes;
  \<^verbatim>\<open>json.Marshal\<close> of a struct of strings returns no error.
\<close>

datatype json = JSON QueryResponses

definition json_Marshal :: "QueryResponses \<Rightarrow> error + json" where
  "json_Marshal q = Inr (JSON q)"

record Device =
  d_UUID :: string
  d_UDID :: string
  d_SerialNumber :: NullString
  d_ProductName :: string
  d_BuildVersion :: string
  d_DeviceName :: string
  d_IMEI :: string
  d_MEID :: string
  d_Model :: string
  d_OSVersion :: string
  d_LastCheckin :: nat
  d_LastQueryResponse :: "json option"
  d_AwaitingConfiguration :: bool

record DeviceApplication =
  app_DeviceUUID :: string
  app_Name :: string
  app_Identifier :: NullString
  app_ShortVersion :: NullString
  app_Version :: NullString
  app_BundleSize :: NullInt64
  app_DynamicSize :: NullInt64

record Certificate =
  cert_CommonName :: string
  cert_IsIdentity :: bool
  cert_Data :: "nat list"
  cert_DeviceUUID :: string

section \<open>The stores\<close>

text \<open>
  The world: the contents of the four stores, the clock that \<^verbatim>\<open>time.Now\<close> reads, the
  source of fresh command identifiers, and the outcomes of the coming store calls
  (\<open>True\<close>: the call fails because the store is unavailable; an empty list: every call goes
  through). \<open>find_miss\<close> is the payload that \<^verbatim>\<open>Find\<close> hands back beside an error:
  neither the sources nor the spec say which value that is, so it is left open.
\<close>

record world =
  commands :: "string \<Rightarrow> Payload option"
  find_miss :: Payload
  queues :: "string \<Rightarrow> Payload list"
  uuid_gen :: "nat \<Rightarrow> string"
  uuid_count :: nat
  devices :: "Device list"
  apps :: "DeviceApplication list"
  certs :: "Certificate list"
  now :: nat
  faults :: "bool list"

definition store_call :: "world \<Rightarrow> bool \<times> world" where
  "store_call w =
     (case faults w of
        [] \<Rightarrow> (False, w)
      | f # fs \<Rightarrow> (f, w\<lparr>faults := fs\<rparr>))"

subsection \<open>Command Store\<close>

text \<open>
  Modelled from the spec: the implementation of \<^verbatim>\<open>command.Service\<close> (\<^verbatim>\<open>Find\<close>,
  \<^verbatim>\<open>DeleteCommand\<close>, \<^verbatim>\<open>NewCommand\<close>) is not among the sources. Section 4.1:
  \<^verbatim>\<open>FindMetadata\<close> looks a command up by identifier, whether or not it is still
  queued, and signals command-not-found on an unknown identifier; \<^verbatim>\<open>Remove\<close> deletes the command with the given identifier from the
  device's queue wherever it stands, returns the number of commands still queued, and is
  not an error on an identifier that is not there; \<^verbatim>\<open>Create\<close> appends a new command
  with a fresh identifier to the tail of the device's queue. A call on an unavailable store
  fails and changes nothing.

  The spec does not say what \<^verbatim>\<open>Find\<close> returns beside the error. Line 47 reads the
  request type of the returned payload without looking at the error, so the payload is
  taken to be one that can be read, \<open>find_miss\<close>, whatever its contents; were it a nil
  pointer, line 47 would panic before any store is written, a case that this model leaves
  out and that every statement about an unknown identifier names as its proviso.
\<close>

definition Find :: "string \<Rightarrow> world \<Rightarrow> (Payload \<times> error option) \<times> world" where
  "Find commandUUID w =
     (case store_call w of
        (failed, w1) \<Rightarrow>
          if failed then ((find_miss w1, Some StoreUnavailable), w1)
          else (case commands w1 commandUUID of
                  None \<Rightarrow> ((find_miss w1, Some CommandNotFound), w1)
                | Some p \<Rightarrow> ((p, None), w1)))"

definition DeleteCommand :: "string \<Rightarrow> string \<Rightarrow> world \<Rightarrow> (int \<times> error option) \<times> world" where
  "DeleteCommand deviceUDID commandUUID w =
     (case store_call w of
        (failed, w1) \<Rightarrow>
          if failed then ((0, Some StoreUnavailable), w1)
          else (let q = filter (\<lambda>p. CommandUUID p \<noteq> commandUUID) (queues w1 deviceUDID)
                in ((int (length q), None), w1\<lparr>queues := (queues w1)(deviceUDID := q)\<rparr>)))"

definition NewCommand :: "CommandRequest \<Rightarrow> world \<Rightarrow> (error + Payload) \<times> world" where
  "NewCommand request w =
     (case store_call w of
        (failed, w1) \<Rightarrow>
          if failed then (Inl StoreUnavailable, w1)
          else (let p = \<lparr>CommandUUID = uuid_gen w1 (uuid_count w1),
                         Command = \<lparr>RequestType = cr_RequestType request\<rparr>\<rparr>
                in (Inr p,
                    w1\<lparr>commands := (commands w1)(CommandUUID p \<mapsto> p),
                       queues := (queues w1)
                         (cr_UDID request := queues w1 (cr_UDID request) @ [p]),
                       uuid_count := Suc (uuid_count w1)\<rparr>)))"

subsection \<open>Device Registry\<close>

text \<open>
  Modelled from the spec: the implementation of \<^verbatim>\<open>device.Datastore\<close> (\<^verbatim>\<open>Devices\<close>,
  \<^verbatim>\<open>GetDeviceByUDID\<close>, \<^verbatim>\<open>Save\<close>) is not among the sources. Section 6:
  lookup by serial number and UDID returns zero, one or many candidates; lookup by UDID
  returns the device or fails when there is none; save overwrites the stored record of
  the device. A call on an unavailable store fails and changes nothing.
\<close>

definition Devices :: "string \<Rightarrow> string \<Rightarrow> world \<Rightarrow> (error + Device list) \<times> world" where
  "Devices serialNumber udid w =
     (case store_call w of
        (failed, w1) \<Rightarrow>
          if failed then (Inl StoreUnavailable, w1)
          else (Inr (filter (\<lambda>d. d_SerialNumber d
                                     = \<lparr>NS_String = serialNumber, NS_Valid = True\<rparr>
                                   \<and> d_UDID d = udid) (devices w1)), w1))"

definition GetDeviceByUDID :: "string \<Rightarrow> world \<Rightarrow> (error + Device) \<times> world" where
  "GetDeviceByUDID udid w =
     (case store_call w of
        (failed, w1) \<Rightarrow>
          if failed then (Inl StoreUnavailable, w1)
          else (case find (\<lambda>d. d_UDID d = udid) (devices w1) of
                  None \<Rightarrow> (Inl DeviceNotFound, w1)
                | Some d \<Rightarrow> (Inr d, w1)))"

definition Save :: "string \<Rightarrow> Device \<Rightarrow> world \<Rightarrow> error option \<times> world" where
  "Save msg dev w =
     (case store_call w of
        (failed, w1) \<Rightarrow>
          if failed then (Some StoreUnavailable, w1)
          else (None, w1\<lparr>devices :=
                         map (\<lambda>d. if d_UUID d = d_UUID dev then dev else d) (devices w1)\<rparr>))"

subsection \<open>Inventory Stores\<close>

text \<open>
  Modelled from the spec: the implementations of \<^verbatim>\<open>application.Datastore\<close> and
  \<^verbatim>\<open>certificate.Datastore\<close> are not among the sources. Section 6: delete all rows of
  a device, insert one row, replace all rows of a device. A call on an unavailable store
  fails and changes nothing.
\<close>

definition DeleteDeviceApplications :: "string \<Rightarrow> world \<Rightarrow> error option \<times> world" where
  "DeleteDeviceApplications deviceUUID w =
     (case store_call w of
        (failed, w1) \<Rightarrow>
          if failed then (Some StoreUnavailable, w1)
          else (None, w1\<lparr>apps := filter (\<lambda>a. app_DeviceUUID a \<noteq> deviceUUID) (apps w1)\<rparr>))"

definition NewDeviceApp :: "DeviceApplication \<Rightarrow> world \<Rightarrow> error option \<times> world" where
  "NewDeviceApp app w =
     (case store_call w of
        (failed, w1) \<Rightarrow>
          if failed then (Some StoreUnavailable, w1)
          else (None, w1\<lparr>apps := apps w1 @ [app]\<rparr>))"

definition ReplaceCertificatesByDeviceUUID ::
    "string \<Rightarrow> Certificate list \<Rightarrow> world \<Rightarrow> error option \<times> world" where
  "ReplaceCertificatesByDeviceUUID deviceUUID cs w =
     (case store_call w of
        (failed, w1) \<Rightarrow>
          if failed then (Some StoreUnavailable, w1)
          else (None, w1\<lparr>certs := filter (\<lambda>c. cert_DeviceUUID c \<noteq> deviceUUID) (certs w1) @ cs\<rparr>))"

section \<open>The service\<close>

text \<open>\<^verbatim>\<open>service.checkRequeue\<close> (lines 86 to 103).\<close>

definition checkRequeue :: "string \<Rightarrow> world \<Rightarrow> (int \<times> error option) \<times> world" where
  "checkRequeue deviceUDID w =
     (case GetDeviceByUDID deviceUDID w of
        (Inl err, w1) \<Rightarrow> ((0, Some (ErrorsWrap err ''check and requeue'')), w1)
      | (Inr existing, w1) \<Rightarrow>
          if d_AwaitingConfiguration existing then
            (case NewCommand \<lparr>cr_UDID = deviceUDID, cr_RequestType = ''DeviceConfigured''\<rparr> w1 of
               (Inl err, w2) \<Rightarrow> ((0, Some err), w2)
             | (Inr _, w2) \<Rightarrow> ((1, None), w2))
          else ((0, None), w1))"

text \<open>\<^verbatim>\<open>service.ackQueryResponses\<close> (lines 106 to 146).\<close>

definition ackQueryResponses :: "Response \<Rightarrow> world \<Rightarrow> error option \<times> world" where
  "ackQueryResponses req w =
     (case Devices (qr_SerialNumber (r_QueryResponses req)) (r_UDID req) w of
        (Inl err, w1) \<Rightarrow> (Some (ErrorsWrap err ''ackQueryResponses fetching device''), w1)
      | (Inr devs, w1) \<Rightarrow>
          if length devs = 0 then
            (Some (ErrorsNew ''no enrolled device matches the one responding''), w1)
          else if length devs > 1 then
            (Some (FmtErrorfStr
               ''expected a single device for udid: %s, serial number: %s, but got more than one.''
               [r_UDID req, qr_SerialNumber (r_QueryResponses req)]), w1)
          else
            (case json_Marshal (r_QueryResponses req) of
               Inl err \<Rightarrow> (Some err, w1)
             | Inr js \<Rightarrow>
                 (let q = r_QueryResponses req;
                      serialNumber = NullString_Scan (qr_SerialNumber q);
                      existing = (devs ! 0)
                        \<lparr>d_LastCheckin := now w1,
                         d_LastQueryResponse := Some js,
                         d_ProductName := qr_ProductName q,
                         d_BuildVersion := qr_BuildVersion q,
                         d_DeviceName := qr_DeviceName q,
                         d_IMEI := qr_IMEI q,
                         d_MEID := qr_MEID q,
                         d_Model := qr_Model q,
                         d_OSVersion := qr_OSVersion q,
                         d_SerialNumber := serialNumber\<rparr>
                  in Save ''queryResponses'' existing w1)))"

text \<open>
  \<^verbatim>\<open>service.ackInstalledApplicationList\<close> (lines 149 to 196). \<open>newApp\<close> is the row built
  from one reported entry (lines 163 to 181); \<open>insertApps\<close> is the loop of lines 162 to
  191, which stops at the first insert that fails.
\<close>

definition newApp :: "string \<Rightarrow> InstalledApplicationListItem \<Rightarrow> DeviceApplication" where
  "newApp deviceUUID reqApp =
     \<lparr>app_DeviceUUID = deviceUUID,
      app_Name = it_Name reqApp,
      app_Identifier = \<lparr>NS_String = it_Identifier reqApp, NS_Valid = (it_Identifier reqApp \<noteq> [])\<rparr>,
      app_ShortVersion =
        \<lparr>NS_String = it_ShortVersion reqApp, NS_Valid = (it_ShortVersion reqApp \<noteq> [])\<rparr>,
      app_Version = \<lparr>NS_String = it_Version reqApp, NS_Valid = (it_Version reqApp \<noteq> [])\<rparr>,
      app_BundleSize = NullInt64_Scan (it_BundleSize reqApp),
      app_DynamicSize = NullInt64_Scan (it_DynamicSize reqApp)\<rparr>"

fun insertApps :: "string \<Rightarrow> InstalledApplicationListItem list \<Rightarrow> world \<Rightarrow> error option \<times> world"
  where
  "insertApps deviceUUID [] w = (None, w)"
| "insertApps deviceUUID (reqApp # rest) w =
     (case NewDeviceApp (newApp deviceUUID reqApp) w of
        (Some err, w1) \<Rightarrow> (Some (FmtErrorf ''inserting an application for device: %s'' err), w1)
      | (None, w1) \<Rightarrow> insertApps deviceUUID rest w1)"

definition ackInstalledApplicationList :: "Response \<Rightarrow> world \<Rightarrow> error option \<times> world" where
  "ackInstalledApplicationList req w =
     (case GetDeviceByUDID (r_UDID req) w of
        (Inl err, w1) \<Rightarrow> (Some (ErrorsWrap err ''getting a device record by udid''), w1)
      | (Inr dev, w1) \<Rightarrow>
          (case DeleteDeviceApplications (d_UUID dev) w1 of
             (Some err, w2) \<Rightarrow> (Some (FmtErrorf ''clearing applications for device: %s'' err), w2)
           | (None, w2) \<Rightarrow> insertApps (d_UUID dev) (r_InstalledApplicationList req) w2))"

text \<open>\<^verbatim>\<open>service.ackCertificateList\<close> (lines 199 to 222).\<close>

definition newCert :: "string \<Rightarrow> CertificateListItem \<Rightarrow> Certificate" where
  "newCert deviceUUID cert =
     \<lparr>cert_CommonName = ci_CommonName cert,
      cert_IsIdentity = ci_IsIdentity cert,
      cert_Data = ci_Data cert,
      cert_DeviceUUID = deviceUUID\<rparr>"

definition ackCertificateList :: "Response \<Rightarrow> world \<Rightarrow> error option \<times> world" where
  "ackCertificateList req w =
     (case GetDeviceByUDID (r_UDID req) w of
        (Inl err, w1) \<Rightarrow> (Some (ErrorsWrap err ''getting a device record by udid''), w1)
      | (Inr device, w1) \<Rightarrow>
          ReplaceCertificatesByDeviceUUID (d_UUID device)
            (map (newCert (d_UUID device)) (r_CertificateList req)) w1)"

text \<open>
  \<^verbatim>\<open>service.Acknowledge\<close> (lines 44 to 76), in its two stages: \<open>reconcile\<close> is the
  switch on the request type of the payload that \<^verbatim>\<open>Find\<close> returned (lines 47 to 62),
  \<open>removeAndRequeue\<close> the removal and the auto-requeue check (lines 64 to 75). The error
  of \<^verbatim>\<open>Find\<close> is dropped, as line 45 does: the next assignment to \<^verbatim>\<open>err\<close> is line 64.
\<close>

definition reconcile :: "string \<Rightarrow> Response \<Rightarrow> world \<Rightarrow> error option \<times> world" where
  "reconcile requestType req w =
     (if requestType = ''DeviceInformation'' then ackQueryResponses req w
      else if requestType = ''InstalledApplicationList'' then ackInstalledApplicationList req w
      else if requestType = ''CertificateList'' then ackCertificateList req w
      else (None, w))"

definition removeAndRequeue :: "Response \<Rightarrow> world \<Rightarrow> (int \<times> error option) \<times> world" where
  "removeAndRequeue req w =
     (case DeleteCommand (r_UDID req) (r_CommandUUID req) w of
        ((tot, Some err), w1) \<Rightarrow> ((tot, Some err), w1)
      | ((tot, None), w1) \<Rightarrow>
          if tot = 0 then checkRequeue (r_UDID req) w1
          else ((tot, None), w1))"

definition Acknowledge :: "Response \<Rightarrow> world \<Rightarrow> (int \<times> error option) \<times> world" where
  "Acknowledge req w =
     (case Find (r_CommandUUID req) w of
        ((requestPayload, _), w1) \<Rightarrow>
          (case reconcile (RequestType (Command requestPayload)) req w1 of
             (Some err, w2) \<Rightarrow> ((0, Some err), w2)
           | (None, w2) \<Rightarrow> removeAndRequeue req w2))"

text \<open>\<^verbatim>\<open>service.FailCommand\<close> (lines 82 to 84).\<close>

definition FailCommand :: "Response \<Rightarrow> world \<Rightarrow> (int \<times> error option) \<times> world" where
  "FailCommand req w = DeleteCommand (r_UDID req) (r_CommandUUID req) w"

section \<open>Observations and example inputs\<close>

text \<open>The Application Inventory of one device: its rows, in stored order.\<close>

definition applications_of :: "string \<Rightarrow> world \<Rightarrow> DeviceApplication list" where
  "applications_of deviceUUID w = filter (\<lambda>a. app_DeviceUUID a = deviceUUID) (apps w)"







definition ex_payload :: "string \<Rightarrow> string \<Rightarrow> Payload" where
  "ex_payload commandUUID requestType =
     \<lparr>CommandUUID = commandUUID, Command = \<lparr>RequestType = requestType\<rparr>\<rparr>"

definition ex_device :: "string \<Rightarrow> string \<Rightarrow> string \<Rightarrow> bool \<Rightarrow> Device" where
  "ex_device uuid udid serial awaiting =
     \<lparr>d_UUID = uuid, d_UDID = udid,
      d_SerialNumber = \<lparr>NS_String = serial, NS_Valid = True\<rparr>,
      d_ProductName = [], d_BuildVersion = [], d_DeviceName = [], d_IMEI = [], d_MEID = [],
      d_Model = [], d_OSVersion = [], d_LastCheckin = 0, d_LastQueryResponse = None,
      d_AwaitingConfiguration = awaiting\<rparr>"

definition ex_item :: "string \<Rightarrow> string \<Rightarrow> int \<Rightarrow> InstalledApplicationListItem" where
  "ex_item name identifier bundleSize =
     \<lparr>it_Name = name, it_Identifier = identifier, it_ShortVersion = [], it_Version = ''1.0'',
      it_BundleSize = bundleSize, it_DynamicSize = 0\<rparr>"

definition ex_row :: "string \<Rightarrow> string \<Rightarrow> DeviceApplication" where
  "ex_row deviceUUID name =
     \<lparr>app_DeviceUUID = deviceUUID, app_Name = name,
      app_Identifier = \<lparr>NS_String = [], NS_Valid = False\<rparr>,
      app_ShortVersion = \<lparr>NS_String = [], NS_Valid = False\<rparr>,
      app_Version = \<lparr>NS_String = [], NS_Valid = False\<rparr>,
      app_BundleSize = \<lparr>NI_Int64 = 7, NI_Valid = True\<rparr>,
      app_DynamicSize = \<lparr>NI_Int64 = 0, NI_Valid = False\<rparr>\<rparr>"

definition ex_response :: "string \<Rightarrow> string \<Rightarrow> InstalledApplicationListItem list \<Rightarrow> Response" where
  "ex_response commandUUID serial items =
     \<lparr>r_UDID = ''U1'', r_CommandUUID = commandUUID,
      r_QueryResponses =
        \<lparr>qr_SerialNumber = serial, qr_ProductName = ''iPad'', qr_BuildVersion = ''14A'',
         qr_DeviceName = ''pad'', qr_IMEI = [], qr_MEID = [], qr_Model = ''M1'',
         qr_OSVersion = ''10.0''\<rparr>,
      r_InstalledApplicationList = items,
      r_CertificateList = []\<rparr>"

definition ex_world ::
    "Payload list \<Rightarrow> Payload list \<Rightarrow> Device list \<Rightarrow> DeviceApplication list \<Rightarrow> bool list \<Rightarrow> world"
  where
  "ex_world known queue ds rows fs =
     \<lparr>commands = map_of (map (\<lambda>p. (CommandUUID p, p)) known),
      find_miss = zero_Payload,
      queues = (\<lambda>udid. if udid = ''U1'' then queue else []),
      uuid_gen = (\<lambda>n. replicate (Suc n) (CHR ''g'')),
      uuid_count = 0,
      devices = ds,
      apps = rows,
      certs = [],
      now = 42,
      faults = fs\<rparr>"

section \<open>What each call leaves alone\<close>

lemma store_call_eq:
  "store_call w = (faults w \<noteq> [] \<and> hd (faults w), w\<lparr>faults := tl (faults w)\<rparr>)"
  by (cases "faults w") (simp_all add: store_call_def)

lemmas store_defs =
  Find_def DeleteCommand_def NewCommand_def Devices_def GetDeviceByUDID_def Save_def
  DeleteDeviceApplications_def NewDeviceApp_def ReplaceCertificatesByDeviceUUID_def
  store_call_def Let_def

lemmas service_defs =
  Acknowledge_def reconcile_def removeAndRequeue_def checkRequeue_def ackQueryResponses_def
  ackInstalledApplicationList_def ackCertificateList_def newApp_def NullInt64_Scan_def

lemmas ex_defs =
  ex_payload_def ex_device_def ex_item_def ex_row_def ex_response_def ex_world_def

lemma Find_world: "snd (Find c w) = w\<lparr>faults := tl (faults w)\<rparr>"
  by (simp add: Find_def store_call_eq split: option.splits)

lemma Devices_world: "snd (Devices s u w) = w\<lparr>faults := tl (faults w)\<rparr>"
  by (simp add: Devices_def store_call_eq)

lemma GetDeviceByUDID_world: "snd (GetDeviceByUDID u w) = w\<lparr>faults := tl (faults w)\<rparr>"
  by (simp add: GetDeviceByUDID_def store_call_eq split: option.splits)

lemma Save_keeps:
  "Save m d w = (e, w') \<Longrightarrow>
     commands w' = commands w \<and> queues w' = queues w \<and> apps w' = apps w \<and> certs w' = certs w"
  by (auto simp: Save_def store_call_eq split: if_splits)

lemma ackQueryResponses_keeps:
  "ackQueryResponses req w = (e, w') \<Longrightarrow>
     commands w' = commands w \<and> queues w' = queues w \<and> apps w' = apps w \<and> certs w' = certs w"
  unfolding ackQueryResponses_def Devices_def store_call_eq json_Marshal_def Let_def
  by (auto split: if_splits sum.splits dest!: Save_keeps)

lemma NewDeviceApp_keeps:
  "NewDeviceApp a w = (e, w') \<Longrightarrow>
     commands w' = commands w \<and> queues w' = queues w \<and> devices w' = devices w
     \<and> certs w' = certs w"
  by (auto simp: NewDeviceApp_def store_call_eq split: if_splits)

lemma insertApps_keeps:
  "insertApps u xs w = (e, w') \<Longrightarrow>
     commands w' = commands w \<and> queues w' = queues w \<and> devices w' = devices w
     \<and> certs w' = certs w"
proof (induction xs arbitrary: w)
  case Nil
  then show ?case by simp
next
  case (Cons x xs)
  obtain e1 w1 where n: "NewDeviceApp (newApp u x) w = (e1, w1)" by fastforce
  show ?case
  proof (cases e1)
    case None
    with Cons.prems n have "insertApps u xs w1 = (e, w')" by simp
    from Cons.IH[OF this] NewDeviceApp_keeps[OF n] show ?thesis by simp
  next
    case (Some a)
    with Cons.prems n have "w' = w1" by simp
    with NewDeviceApp_keeps[OF n] show ?thesis by simp
  qed
qed

lemma ackInstalledApplicationList_keeps:
  "ackInstalledApplicationList req w = (e, w') \<Longrightarrow>
     commands w' = commands w \<and> queues w' = queues w \<and> devices w' = devices w
     \<and> certs w' = certs w"
  unfolding ackInstalledApplicationList_def GetDeviceByUDID_def DeleteDeviceApplications_def
    store_call_eq
  by (auto split: if_splits sum.splits option.splits dest!: insertApps_keeps)

lemma ackCertificateList_keeps:
  "ackCertificateList req w = (e, w') \<Longrightarrow>
     commands w' = commands w \<and> queues w' = queues w \<and> devices w' = devices w
     \<and> apps w' = apps w"
  unfolding ackCertificateList_def GetDeviceByUDID_def ReplaceCertificatesByDeviceUUID_def
    store_call_eq
  by (auto split: if_splits sum.splits option.splits)

lemma Find_keeps:
  "Find c w = (r, w') \<Longrightarrow>
     commands w' = commands w \<and> queues w' = queues w \<and> devices w' = devices w
     \<and> apps w' = apps w \<and> certs w' = certs w"
  using Find_world[of c w] by auto

section \<open>Acknowledge: a failing reconciliation\<close>

text \<open>
  C2. When the request type that \<^verbatim>\<open>Find\<close> resolved is DeviceInformation,
  InstalledApplicationList or CertificateList and the routine selected for it returns an
  error, \<^verbatim>\<open>Acknowledge\<close> returns that error with a count of 0 and never reaches the
  removal: the queues (and the command metadata) are those from before the call.
\<close>

theorem C2_reconcile_error_keeps_command:
  assumes "Find (r_CommandUUID req) w = ((p, fe), w1)"
    and "(RequestType (Command p) = ''DeviceInformation''
            \<and> ackQueryResponses req w1 = (Some err, w2))
       \<or> (RequestType (Command p) = ''InstalledApplicationList''
            \<and> ackInstalledApplicationList req w1 = (Some err, w2))
       \<or> (RequestType (Command p) = ''CertificateList''
            \<and> ackCertificateList req w1 = (Some err, w2))"
  shows "Acknowledge req w = ((0, Some err), w2)
       \<and> queues w2 = queues w \<and> commands w2 = commands w"
proof -
  from assms(2) have r: "reconcile (RequestType (Command p)) req w1 = (Some err, w2)"
    by (auto simp: reconcile_def)
  have a: "Acknowledge req w = ((0, Some err), w2)"
    by (simp add: Acknowledge_def assms(1) r)
  from assms(2) have "queues w2 = queues w1 \<and> commands w2 = commands w1"
    by (auto dest: ackQueryResponses_keeps ackInstalledApplicationList_keeps
        ackCertificateList_keeps)
  with Find_keeps[OF assms(1)] a show ?thesis by simp
qed

theorem C2_witness:
  "Acknowledge (ex_response ''c1'' ''S1'' [])
     (ex_world [ex_payload ''c1'' ''CertificateList''] [ex_payload ''c1'' ''CertificateList'']
        [] [] [])
   = ((0, Some (ErrorsWrap DeviceNotFound ''getting a device record by udid'')),
      ex_world [ex_payload ''c1'' ''CertificateList''] [ex_payload ''c1'' ''CertificateList'']
        [] [] [])
   \<and> queues (ex_world [ex_payload ''c1'' ''CertificateList'']
        [ex_payload ''c1'' ''CertificateList''] [] [] []) ''U1''
     = [ex_payload ''c1'' ''CertificateList'']"
proof -
  let ?c = "ex_payload ''c1'' ''CertificateList''"
  let ?w = "ex_world [?c] [?c] [] [] []"
  let ?req = "ex_response ''c1'' ''S1'' []"
  let ?e = "ErrorsWrap DeviceNotFound ''getting a device record by udid''"
  have f: "Find (r_CommandUUID ?req) ?w = ((?c, None), ?w)"
    by (simp add: store_defs ex_defs)
  have q: "ackCertificateList ?req ?w = (Some ?e, ?w)"
    by (simp add: ackCertificateList_def store_defs ex_defs)
  have t: "RequestType (Command ?c) = ''CertificateList''"
    by (simp add: ex_payload_def)
  from C2_reconcile_error_keeps_command[OF f, of ?e ?w] t q
  have "Acknowledge ?req ?w = ((0, Some ?e), ?w)"
    by blast
  moreover have "queues ?w ''U1'' = [?c]"
    by (simp add: ex_world_def)
  ultimately show ?thesis by simp
qed

section \<open>Device Attribute Reconciliation: orphan and ambiguous responses\<close>

text \<open>
  C5. When the resolved request type is DeviceInformation and the lookup by serial number
  and UDID returns no device, \<^verbatim>\<open>Acknowledge\<close> returns the error "no enrolled device
  matches the one responding", and the Device Registry, both inventories, the queues and
  the command metadata are what they were.
\<close>

theorem C5_orphan_response:
  assumes "Find (r_CommandUUID req) w = ((p, fe), w1)"
    and "RequestType (Command p) = ''DeviceInformation''"
    and "Devices (qr_SerialNumber (r_QueryResponses req)) (r_UDID req) w1 = (Inr [], w2)"
  shows "Acknowledge req w
           = ((0, Some (ErrorsNew ''no enrolled device matches the one responding'')), w2)
       \<and> devices w2 = devices w \<and> apps w2 = apps w \<and> certs w2 = certs w
       \<and> queues w2 = queues w \<and> commands w2 = commands w"
proof -
  have q: "ackQueryResponses req w1
      = (Some (ErrorsNew ''no enrolled device matches the one responding''), w2)"
    by (simp add: ackQueryResponses_def assms(3))
  have a: "Acknowledge req w
      = ((0, Some (ErrorsNew ''no enrolled device matches the one responding'')), w2)"
    by (simp add: Acknowledge_def assms(1,2) reconcile_def q)
  from Devices_world[of "qr_SerialNumber (r_QueryResponses req)" "r_UDID req" w1] assms(3)
  have "w2 = w1\<lparr>faults := tl (faults w1)\<rparr>" by simp
  with Find_keeps[OF assms(1)] a show ?thesis by simp
qed

theorem C5_witness:
  "Acknowledge (ex_response ''c1'' ''S1'' [])
     (ex_world [ex_payload ''c1'' ''DeviceInformation''] [ex_payload ''c1'' ''DeviceInformation'']
        [] [ex_row ''D7'' ''Mail''] [])
   = ((0, Some (ErrorsNew ''no enrolled device matches the one responding'')),
      ex_world [ex_payload ''c1'' ''DeviceInformation''] [ex_payload ''c1'' ''DeviceInformation'']
        [] [ex_row ''D7'' ''Mail''] [])"
proof -
  let ?w = "ex_world [ex_payload ''c1'' ''DeviceInformation'']
     [ex_payload ''c1'' ''DeviceInformation''] [] [ex_row ''D7'' ''Mail''] []"
  let ?req = "ex_response ''c1'' ''S1'' []"
  have f: "Find (r_CommandUUID ?req) ?w = ((ex_payload ''c1'' ''DeviceInformation'', None), ?w)"
    by (simp add: Find_def store_call_def ex_world_def ex_response_def ex_payload_def)
  have t: "RequestType (Command (ex_payload ''c1'' ''DeviceInformation'')) = ''DeviceInformation''"
    by (simp add: ex_payload_def)
  have d: "Devices (qr_SerialNumber (r_QueryResponses ?req)) (r_UDID ?req) ?w = (Inr [], ?w)"
    by (simp add: Devices_def store_call_def ex_world_def ex_response_def)
  from C5_orphan_response[OF f t d] show ?thesis by simp
qed

text \<open>
  C6. When the resolved request type is DeviceInformation and the lookup by serial number
  and UDID returns two or more devices, \<^verbatim>\<open>Acknowledge\<close> returns the error "expected a
  single device ... but got more than one" (no device is picked), and the Device Registry,
  both inventories, the queues and the command metadata are what they were.
\<close>

theorem C6_ambiguous_response:
  assumes "Find (r_CommandUUID req) w = ((p, fe), w1)"
    and "RequestType (Command p) = ''DeviceInformation''"
    and "Devices (qr_SerialNumber (r_QueryResponses req)) (r_UDID req) w1 = (Inr devs, w2)"
    and "2 \<le> length devs"
  shows "Acknowledge req w
           = ((0, Some (FmtErrorfStr
                 ''expected a single device for udid: %s, serial number: %s, but got more than one.''
                 [r_UDID req, qr_SerialNumber (r_QueryResponses req)])), w2)
       \<and> devices w2 = devices w \<and> apps w2 = apps w \<and> certs w2 = certs w
       \<and> queues w2 = queues w \<and> commands w2 = commands w"
proof -
  let ?e = "FmtErrorfStr
     ''expected a single device for udid: %s, serial number: %s, but got more than one.''
     [r_UDID req, qr_SerialNumber (r_QueryResponses req)]"
  from assms(4) have l: "length devs \<noteq> 0" "1 < length devs" by auto
  have q: "ackQueryResponses req w1 = (Some ?e, w2)"
    using l by (simp add: ackQueryResponses_def assms(3))
  have a: "Acknowledge req w = ((0, Some ?e), w2)"
    by (simp add: Acknowledge_def assms(1,2) reconcile_def q)
  from Devices_world[of "qr_SerialNumber (r_QueryResponses req)" "r_UDID req" w1] assms(3)
  have "w2 = w1\<lparr>faults := tl (faults w1)\<rparr>" by simp
  with Find_keeps[OF assms(1)] a show ?thesis by simp
qed

theorem C6_witness:
  "Acknowledge (ex_response ''c1'' ''S1'' [])
     (ex_world [ex_payload ''c1'' ''DeviceInformation''] [ex_payload ''c1'' ''DeviceInformation'']
        [ex_device ''D1'' ''U1'' ''S1'' False, ex_device ''D2'' ''U1'' ''S1'' True] [] [])
   = ((0, Some (FmtErrorfStr
         ''expected a single device for udid: %s, serial number: %s, but got more than one.''
         [''U1'', ''S1''])),
      ex_world [ex_payload ''c1'' ''DeviceInformation''] [ex_payload ''c1'' ''DeviceInformation'']
        [ex_device ''D1'' ''U1'' ''S1'' False, ex_device ''D2'' ''U1'' ''S1'' True] [] [])"
proof -
  let ?ds = "[ex_device ''D1'' ''U1'' ''S1'' False, ex_device ''D2'' ''U1'' ''S1'' True]"
  let ?w = "ex_world [ex_payload ''c1'' ''DeviceInformation'']
     [ex_payload ''c1'' ''DeviceInformation''] ?ds [] []"
  let ?req = "ex_response ''c1'' ''S1'' []"
  have f: "Find (r_CommandUUID ?req) ?w = ((ex_payload ''c1'' ''DeviceInformation'', None), ?w)"
    by (simp add: Find_def store_call_def ex_world_def ex_response_def ex_payload_def)
  have t: "RequestType (Command (ex_payload ''c1'' ''DeviceInformation'')) = ''DeviceInformation''"
    by (simp add: ex_payload_def)
  have d: "Devices (qr_SerialNumber (r_QueryResponses ?req)) (r_UDID ?req) ?w = (Inr ?ds, ?w)"
    by (simp add: Devices_def store_call_def ex_world_def ex_response_def ex_device_def)
  have l: "2 \<le> length ?ds" by simp
  from C6_ambiguous_response[OF f t d l] show ?thesis by (simp add: ex_response_def)
qed

section \<open>Removal and auto-requeue\<close>

lemma DeleteCommand_keeps:
  "DeleteCommand u c w = (r, w') \<Longrightarrow>
     commands w' = commands w \<and> devices w' = devices w \<and> apps w' = apps w
     \<and> certs w' = certs w \<and> uuid_count w' = uuid_count w \<and> faults w' = tl (faults w)"
  by (auto simp: DeleteCommand_def store_call_eq Let_def split: if_splits)

lemma DeleteCommand_ok:
  "DeleteCommand u c w = ((n, None), w') \<Longrightarrow>
     queues w' = (queues w)(u := filter (\<lambda>p. CommandUUID p \<noteq> c) (queues w u))
     \<and> n = int (length (queues w' u))"
  by (auto simp: DeleteCommand_def store_call_eq Let_def split: if_splits)

lemma DeleteCommand_failed:
  "DeleteCommand u c w = ((n, Some e), w') \<Longrightarrow>
     queues w' = queues w \<and> n = 0 \<and> e = StoreUnavailable"
  by (auto simp: DeleteCommand_def store_call_eq Let_def split: if_splits)

lemma NewCommand_ok:
  "NewCommand cr w = (Inr c, w') \<Longrightarrow>
     queues w' = (queues w)(cr_UDID cr := queues w (cr_UDID cr) @ [c])
     \<and> RequestType (Command c) = cr_RequestType cr
     \<and> devices w' = devices w \<and> apps w' = apps w \<and> certs w' = certs w"
  by (auto simp: NewCommand_def store_call_eq Let_def split: if_splits)

lemma NewCommand_failed:
  "NewCommand cr w = (Inl e, w') \<Longrightarrow>
     queues w' = queues w \<and> commands w' = commands w \<and> e = StoreUnavailable
     \<and> devices w' = devices w \<and> apps w' = apps w \<and> certs w' = certs w"
  by (auto simp: NewCommand_def store_call_eq Let_def split: if_splits)

lemma checkRequeue_keeps:
  "checkRequeue u w = (r, w') \<Longrightarrow>
     devices w' = devices w \<and> apps w' = apps w \<and> certs w' = certs w"
  unfolding checkRequeue_def GetDeviceByUDID_def store_call_eq
  by (auto split: if_splits sum.splits option.splits prod.splits
      dest: NewCommand_ok NewCommand_failed)

lemma checkRequeue_failed:
  "checkRequeue u w = ((n, Some e), w') \<Longrightarrow>
     queues w' = queues w \<and> n = 0 \<and> e \<noteq> CommandNotFound"
  unfolding checkRequeue_def GetDeviceByUDID_def store_call_eq
  by (auto split: if_splits sum.splits option.splits prod.splits dest: NewCommand_failed)

lemma removeAndRequeue_keeps:
  assumes "removeAndRequeue req w = (r, w')"
  shows "devices w' = devices w \<and> apps w' = apps w \<and> certs w' = certs w"
proof -
  obtain n e w1 where d: "DeleteCommand (r_UDID req) (r_CommandUUID req) w = ((n, e), w1)"
    by (metis prod.exhaust)
  note k = DeleteCommand_keeps[OF d]
  show ?thesis
  proof (cases "e = None \<and> n = 0")
    case True
    with assms d have "checkRequeue (r_UDID req) w1 = (r, w')"
      by (simp add: removeAndRequeue_def)
    from checkRequeue_keeps[OF this] k show ?thesis by simp
  next
    case False
    with assms d have "w' = w1"
      by (auto simp: removeAndRequeue_def split: option.splits if_splits)
    with k show ?thesis by simp
  qed
qed





text \<open>
  C3. Let the reconciliation succeed and the removal report a remaining count of zero, and
  let the lookup of the device by UDID return it. If the device awaits configuration and
  the Command Store accepts the new command, \<^verbatim>\<open>Acknowledge\<close> returns 1 and the queue of
  the device holds exactly one command, of type DeviceConfigured, every other queue being
  untouched. If the device does not await configuration, \<^verbatim>\<open>Acknowledge\<close> returns 0 and
  the queues are those that the removal left, the device's own being empty.
\<close>

theorem C3_auto_requeue:
  assumes "Find (r_CommandUUID req) w = ((p, fe), w1)"
    and "reconcile (RequestType (Command p)) req w1 = (None, w2)"
    and "DeleteCommand (r_UDID req) (r_CommandUUID req) w2 = ((0, None), w3)"
    and "GetDeviceByUDID (r_UDID req) w3 = (Inr dev, w4)"
  shows "(d_AwaitingConfiguration dev \<longrightarrow>
            (\<forall>c w5. NewCommand \<lparr>cr_UDID = r_UDID req, cr_RequestType = ''DeviceConfigured''\<rparr> w4
                       = (Inr c, w5) \<longrightarrow>
               Acknowledge req w = ((1, None), w5)
               \<and> RequestType (Command c) = ''DeviceConfigured''
               \<and> queues w5 = (queues w3)(r_UDID req := [c])))
       \<and> (\<not> d_AwaitingConfiguration dev \<longrightarrow>
            Acknowledge req w = ((0, None), w4)
            \<and> queues w4 = queues w3 \<and> queues w4 (r_UDID req) = [])"
proof -
  have a: "Acknowledge req w = checkRequeue (r_UDID req) w3"
    by (simp add: Acknowledge_def assms(1,2,3) removeAndRequeue_def)
  from DeleteCommand_ok[OF assms(3)] have "0 = int (length (queues w3 (r_UDID req)))"
    by blast
  then have e: "queues w3 (r_UDID req) = []" by simp
  from GetDeviceByUDID_world[of "r_UDID req" w3] assms(4)
  have q4: "queues w4 = queues w3" by simp
  have yes: "Acknowledge req w = ((1, None), w5)
       \<and> RequestType (Command c) = ''DeviceConfigured''
       \<and> queues w5 = (queues w3)(r_UDID req := [c])"
    if aw: "d_AwaitingConfiguration dev"
      and n: "NewCommand \<lparr>cr_UDID = r_UDID req, cr_RequestType = ''DeviceConfigured''\<rparr> w4
                = (Inr c, w5)"
    for c w5
  proof -
    from aw n have "checkRequeue (r_UDID req) w3 = ((1, None), w5)"
      by (simp add: checkRequeue_def assms(4))
    with a NewCommand_ok[OF n] q4 e show ?thesis by simp
  qed
  have no: "Acknowledge req w = ((0, None), w4)" if "\<not> d_AwaitingConfiguration dev"
    using that a by (simp add: checkRequeue_def assms(4))
  from yes no q4 e show ?thesis by simp
qed

theorem C3_witness:
  "fst (Acknowledge (ex_response ''c1'' ''S1'' [])
       (ex_world [ex_payload ''c1'' ''ProfileList''] [ex_payload ''c1'' ''ProfileList'']
          [ex_device ''D1'' ''U1'' ''S1'' True] [] [])) = (1, None)
   \<and> queues (snd (Acknowledge (ex_response ''c1'' ''S1'' [])
       (ex_world [ex_payload ''c1'' ''ProfileList''] [ex_payload ''c1'' ''ProfileList'']
          [ex_device ''D1'' ''U1'' ''S1'' True] [] []))) ''U1''
     = [ex_payload ''g'' ''DeviceConfigured'']
   \<and> fst (Acknowledge (ex_response ''c1'' ''S1'' [])
       (ex_world [ex_payload ''c1'' ''ProfileList''] [ex_payload ''c1'' ''ProfileList'']
          [ex_device ''D1'' ''U1'' ''S1'' False] [] [])) = (0, None)
   \<and> queues (snd (Acknowledge (ex_response ''c1'' ''S1'' [])
       (ex_world [ex_payload ''c1'' ''ProfileList''] [ex_payload ''c1'' ''ProfileList'']
          [ex_device ''D1'' ''U1'' ''S1'' False] [] []))) ''U1'' = []"
proof -
  let ?c = "ex_payload ''c1'' ''ProfileList''"
  let ?w = "\<lambda>b. ex_world [?c] [?c] [ex_device ''D1'' ''U1'' ''S1'' b] [] []"
  let ?req = "ex_response ''c1'' ''S1'' []"
  let ?cr = "\<lparr>cr_UDID = r_UDID ?req, cr_RequestType = ''DeviceConfigured''\<rparr>"
  define w3 where "w3 = (\<lambda>b. snd (DeleteCommand (r_UDID ?req) (r_CommandUUID ?req) (?w b)))"
  define w5 where "w5 = snd (NewCommand ?cr (w3 True))"
  have f: "Find (r_CommandUUID ?req) (?w b) = ((?c, None), ?w b)" for b
    by (simp add: store_defs ex_defs)
  have r: "reconcile (RequestType (Command ?c)) ?req (?w b) = (None, ?w b)" for b
    by (simp add: reconcile_def ex_payload_def)
  have d: "DeleteCommand (r_UDID ?req) (r_CommandUUID ?req) (?w b) = ((0, None), w3 b)" for b
    unfolding w3_def by (simp add: store_defs ex_defs)
  have g: "GetDeviceByUDID (r_UDID ?req) (w3 b) = (Inr (ex_device ''D1'' ''U1'' ''S1'' b), w3 b)"
    for b
    unfolding w3_def by (simp add: store_defs ex_defs)
  have aw: "d_AwaitingConfiguration (ex_device ''D1'' ''U1'' ''S1'' b) = b" for b
    by (simp add: ex_device_def)
  have n: "NewCommand ?cr (w3 True) = (Inr (ex_payload ''g'' ''DeviceConfigured''), w5)"
    unfolding w5_def w3_def by (simp add: store_defs ex_defs)
  from C3_auto_requeue[OF f r d g, of True] aw[of True] n
  have "Acknowledge ?req (?w True) = ((1, None), w5)
      \<and> queues w5 = (queues (w3 True))(r_UDID ?req := [ex_payload ''g'' ''DeviceConfigured''])"
    by blast
  moreover from C3_auto_requeue[OF f r d g, of False] aw[of False]
  have "Acknowledge ?req (?w False) = ((0, None), w3 False)
      \<and> queues (w3 False) (r_UDID ?req) = []"
    by blast
  ultimately show ?thesis by (simp add: ex_response_def)
qed

section \<open>FailCommand\<close>

text \<open>
  C4. \<^verbatim>\<open>FailCommand\<close> is the removal and nothing else. When the Command Store
  performs it, the command with the given identifier is gone from the device's queue, the
  other queues are untouched and the count returned is the length of what remains. In
  every case no queue gains a command, no command is created and the Device Registry is
  not consulted for the awaiting-configuration flag: a removal that leaves the queue empty
  leaves it empty.
\<close>

theorem C4_FailCommand_only_removes:
  "FailCommand req w = DeleteCommand (r_UDID req) (r_CommandUUID req) w
   \<and> (snd (fst (FailCommand req w)) = None \<longrightarrow>
        queues (snd (FailCommand req w))
          = (queues w)(r_UDID req :=
              filter (\<lambda>c. CommandUUID c \<noteq> r_CommandUUID req) (queues w (r_UDID req)))
        \<and> fst (fst (FailCommand req w))
          = int (length (queues (snd (FailCommand req w)) (r_UDID req))))
   \<and> (\<forall>u. set (queues (snd (FailCommand req w)) u) \<subseteq> set (queues w u))
   \<and> commands (snd (FailCommand req w)) = commands w
   \<and> uuid_count (snd (FailCommand req w)) = uuid_count w"
  by (auto simp: FailCommand_def DeleteCommand_def store_call_eq Let_def)

theorem C4_witness:
  "FailCommand (ex_response ''c1'' ''S1'' [])
     (ex_world [ex_payload ''c1'' ''InstallProfile''] [ex_payload ''c1'' ''InstallProfile'']
        [ex_device ''D1'' ''U1'' ''S1'' True] [] [])
   = ((0, None),
      ex_world [ex_payload ''c1'' ''InstallProfile''] [] [ex_device ''D1'' ''U1'' ''S1'' True] [] [])"
proof -
  let ?c = "ex_payload ''c1'' ''InstallProfile''"
  let ?w = "ex_world [?c] [?c] [ex_device ''D1'' ''U1'' ''S1'' True] [] []"
  let ?req = "ex_response ''c1'' ''S1'' []"
  have d: "DeleteCommand (r_UDID ?req) (r_CommandUUID ?req) ?w
      = ((0, None), ex_world [?c] [] [ex_device ''D1'' ''U1'' ''S1'' True] [] [])"
    by (simp add: store_defs ex_defs fun_eq_iff)
  from C4_FailCommand_only_removes[of ?req ?w] d show ?thesis by simp
qed

section \<open>Application Inventory Replace\<close>

lemma NewDeviceApp_ok: "NewDeviceApp a w = (None, w') \<Longrightarrow> apps w' = apps w @ [a]"
  by (auto simp: NewDeviceApp_def store_call_eq split: if_splits)

lemma NewDeviceApp_failed: "NewDeviceApp a w = (Some e, w') \<Longrightarrow> apps w' = apps w"
  by (auto simp: NewDeviceApp_def store_call_eq split: if_splits)

lemma insertApps_ok:
  "insertApps u xs w = (None, w') \<Longrightarrow> apps w' = apps w @ map (newApp u) xs"
proof (induction xs arbitrary: w)
  case Nil
  then show ?case by simp
next
  case (Cons x xs)
  obtain e1 w1 where n: "NewDeviceApp (newApp u x) w = (e1, w1)" by fastforce
  with Cons.prems have e1: "e1 = None" by (cases e1) simp_all
  with Cons.prems n have "insertApps u xs w1 = (None, w')" by simp
  from Cons.IH[OF this] NewDeviceApp_ok[of "newApp u x" w w1] n e1 show ?case by simp
qed

lemma insertApps_append:
  "insertApps u (xs @ ys) w =
     (case insertApps u xs w of
        (Some e, w1) \<Rightarrow> (Some e, w1)
      | (None, w1) \<Rightarrow> insertApps u ys w1)"
  by (induction xs arbitrary: w) (auto split: prod.splits option.splits)

lemma applications_of_rows:
  "apps w' = filter (\<lambda>a. app_DeviceUUID a \<noteq> u) rows @ map (newApp u) xs \<Longrightarrow>
     applications_of u w' = map (newApp u) xs
     \<and> (\<forall>v. v \<noteq> u \<longrightarrow> applications_of v w' = filter (\<lambda>a. app_DeviceUUID a = v) rows)"
proof -
  assume a: "apps w' = filter (\<lambda>a. app_DeviceUUID a \<noteq> u) rows @ map (newApp u) xs"
  have 1: "filter (\<lambda>a. app_DeviceUUID a = u) (map (newApp u) xs) = map (newApp u) xs"
    by (induction xs) (simp_all add: newApp_def)
  have 2: "filter (\<lambda>a. app_DeviceUUID a = v) (map (newApp u) xs) = []" if "v \<noteq> u" for v
    using that by (induction xs) (simp_all add: newApp_def)
  have 3: "filter (\<lambda>a. app_DeviceUUID a = u) (filter (\<lambda>a. app_DeviceUUID a \<noteq> u) rows) = []"
    by (induction rows) simp_all
  have 4: "filter (\<lambda>a. app_DeviceUUID a = v) (filter (\<lambda>a. app_DeviceUUID a \<noteq> u) rows)
      = filter (\<lambda>a. app_DeviceUUID a = v) rows" if "v \<noteq> u" for v
    using that by (induction rows) simp_all
  from a 1 2 3 4 show ?thesis by (simp add: applications_of_def)
qed

lemma ackInstalledApplicationList_ok:
  assumes "ackInstalledApplicationList req w = (None, w')"
  shows "\<exists>dev. find (\<lambda>d. d_UDID d = r_UDID req) (devices w) = Some dev
           \<and> apps w' = filter (\<lambda>a. app_DeviceUUID a \<noteq> d_UUID dev) (apps w)
                        @ map (newApp (d_UUID dev)) (r_InstalledApplicationList req)"
proof -
  obtain g w1 where g: "GetDeviceByUDID (r_UDID req) w = (g, w1)" by fastforce
  with assms obtain dev where dev: "g = Inr dev"
    by (cases g) (simp_all add: ackInstalledApplicationList_def)
  from g dev have f: "find (\<lambda>d. d_UDID d = r_UDID req) (devices w) = Some dev"
    and a1: "apps w1 = apps w"
    by (auto simp: GetDeviceByUDID_def store_call_eq split: if_splits option.splits)
  obtain e2 w2 where d: "DeleteDeviceApplications (d_UUID dev) w1 = (e2, w2)" by fastforce
  with assms g dev have e2: "e2 = None"
    by (cases e2) (simp_all add: ackInstalledApplicationList_def)
  from d e2 have a2: "apps w2 = filter (\<lambda>a. app_DeviceUUID a \<noteq> d_UUID dev) (apps w1)"
    by (auto simp: DeleteDeviceApplications_def store_call_eq split: if_splits)
  from assms g dev d e2
  have "insertApps (d_UUID dev) (r_InstalledApplicationList req) w2 = (None, w')"
    by (simp add: ackInstalledApplicationList_def)
  from insertApps_ok[OF this] a1 a2 f show ?thesis by simp
qed

text \<open>
  C7, as the code has it. After an \<^verbatim>\<open>Acknowledge\<close> without error of a response whose
  resolved request type is InstalledApplicationList, the rows of the device are exactly
  one row per reported entry, in the reported order, and the rows of every other device are
  untouched. In each row an empty bundle identifier, short version or version is stored
  as absent and a non-empty one as present; bundle size and dynamic size are stored as
  present, with the reported number, whatever that number is.
\<close>

theorem C7_application_inventory_replaced:
  assumes "Find (r_CommandUUID req) w = ((p, fe), w1)"
    and "RequestType (Command p) = ''InstalledApplicationList''"
    and "Acknowledge req w = ((n, None), w')"
  shows "(\<exists>dev. find (\<lambda>d. d_UDID d = r_UDID req) (devices w) = Some dev
            \<and> applications_of (d_UUID dev) w'
                = map (newApp (d_UUID dev)) (r_InstalledApplicationList req)
            \<and> (\<forall>v. v \<noteq> d_UUID dev \<longrightarrow> applications_of v w' = applications_of v w))
       \<and> (\<forall>u x. app_Name (newApp u x) = it_Name x
            \<and> app_Identifier (newApp u x)
                = \<lparr>NS_String = it_Identifier x, NS_Valid = (it_Identifier x \<noteq> [])\<rparr>
            \<and> app_ShortVersion (newApp u x)
                = \<lparr>NS_String = it_ShortVersion x, NS_Valid = (it_ShortVersion x \<noteq> [])\<rparr>
            \<and> app_Version (newApp u x)
                = \<lparr>NS_String = it_Version x, NS_Valid = (it_Version x \<noteq> [])\<rparr>
            \<and> app_BundleSize (newApp u x) = \<lparr>NI_Int64 = it_BundleSize x, NI_Valid = True\<rparr>
            \<and> app_DynamicSize (newApp u x) = \<lparr>NI_Int64 = it_DynamicSize x, NI_Valid = True\<rparr>)"
proof -
  note k = Find_keeps[OF assms(1)]
  obtain re w2 where r: "ackInstalledApplicationList req w1 = (re, w2)" by fastforce
  then have rc: "reconcile (RequestType (Command p)) req w1 = (re, w2)"
    by (simp add: reconcile_def assms(2))
  with assms(1,3) have re: "re = None" and rr: "removeAndRequeue req w2 = ((n, None), w')"
    by (cases re; simp add: Acknowledge_def)+
  from ackInstalledApplicationList_ok[of req w1 w2] r re k
  obtain dev where f: "find (\<lambda>d. d_UDID d = r_UDID req) (devices w) = Some dev"
    and a: "apps w2 = filter (\<lambda>a. app_DeviceUUID a \<noteq> d_UUID dev) (apps w)
              @ map (newApp (d_UUID dev)) (r_InstalledApplicationList req)"
    by auto
  from removeAndRequeue_keeps[OF rr] a
  have "apps w' = filter (\<lambda>a. app_DeviceUUID a \<noteq> d_UUID dev) (apps w)
              @ map (newApp (d_UUID dev)) (r_InstalledApplicationList req)"
    by simp
  from applications_of_rows[OF this] f
  have 1: "\<exists>dev. find (\<lambda>d. d_UDID d = r_UDID req) (devices w) = Some dev
            \<and> applications_of (d_UUID dev) w'
                = map (newApp (d_UUID dev)) (r_InstalledApplicationList req)
            \<and> (\<forall>v. v \<noteq> d_UUID dev \<longrightarrow> applications_of v w' = applications_of v w)"
    by (auto simp: applications_of_def)
  show ?thesis
    by (rule conjI[OF 1]) (simp add: newApp_def NullInt64_Scan_def)
qed

theorem C7_witness:
  "applications_of ''D1''
     (snd (Acknowledge
        (ex_response ''c1'' ''S1'' [ex_item ''Notes'' ''com.example.notes'' 5, ex_item ''Maps'' [] 9])
        (ex_world [ex_payload ''c1'' ''InstalledApplicationList'']
           [ex_payload ''c1'' ''InstalledApplicationList'', ex_payload ''c2'' ''ProfileList'']
           [ex_device ''D1'' ''U1'' ''S1'' False]
           [ex_row ''D1'' ''Mail'', ex_row ''D2'' ''Safari''] [])))
   = [newApp ''D1'' (ex_item ''Notes'' ''com.example.notes'' 5),
      newApp ''D1'' (ex_item ''Maps'' [] 9)]
   \<and> applications_of ''D2''
     (snd (Acknowledge
        (ex_response ''c1'' ''S1'' [ex_item ''Notes'' ''com.example.notes'' 5, ex_item ''Maps'' [] 9])
        (ex_world [ex_payload ''c1'' ''InstalledApplicationList'']
           [ex_payload ''c1'' ''InstalledApplicationList'', ex_payload ''c2'' ''ProfileList'']
           [ex_device ''D1'' ''U1'' ''S1'' False]
           [ex_row ''D1'' ''Mail'', ex_row ''D2'' ''Safari''] [])))
   = [ex_row ''D2'' ''Safari'']
   \<and> NS_Valid (app_Identifier (newApp ''D1'' (ex_item ''Maps'' [] 9))) = False"
proof -
  let ?L = "[ex_item ''Notes'' ''com.example.notes'' 5, ex_item ''Maps'' [] 9]"
  let ?c = "ex_payload ''c1'' ''InstalledApplicationList''"
  let ?w = "ex_world [?c] [?c, ex_payload ''c2'' ''ProfileList'']
     [ex_device ''D1'' ''U1'' ''S1'' False] [ex_row ''D1'' ''Mail'', ex_row ''D2'' ''Safari''] []"
  let ?req = "ex_response ''c1'' ''S1'' ?L"
  have f: "Find (r_CommandUUID ?req) ?w = ((?c, None), ?w)"
    by (simp add: store_defs ex_defs)
  have t: "RequestType (Command ?c) = ''InstalledApplicationList''"
    by (simp add: ex_payload_def)
  have "fst (Acknowledge ?req ?w) = (1, None)"
    by (simp add: service_defs store_defs ex_defs)
  then have a: "Acknowledge ?req ?w = ((1, None), snd (Acknowledge ?req ?w))"
    by (metis prod.collapse)
  have d: "find (\<lambda>d. d_UDID d = r_UDID ?req) (devices ?w)
      = Some (ex_device ''D1'' ''U1'' ''S1'' False)"
    by (simp add: ex_defs)
  have u: "d_UUID (ex_device ''D1'' ''U1'' ''S1'' False) = ''D1''" "r_InstalledApplicationList ?req = ?L"
    by (simp_all add: ex_defs)
  from C7_application_inventory_replaced[OF f t a] d u
  have "applications_of ''D1'' (snd (Acknowledge ?req ?w)) = map (newApp ''D1'') ?L"
    and o: "\<forall>v. v \<noteq> ''D1'' \<longrightarrow>
              applications_of v (snd (Acknowledge ?req ?w)) = applications_of v ?w"
    by auto
  moreover from o have "applications_of ''D2'' (snd (Acknowledge ?req ?w))
      = [ex_row ''D2'' ''Safari'']"
    by (simp add: applications_of_def ex_world_def ex_row_def)
  moreover from C7_application_inventory_replaced[OF f t a]
  have "app_Identifier (newApp ''D1'' (ex_item ''Maps'' [] 9))
      = \<lparr>NS_String = it_Identifier (ex_item ''Maps'' [] 9),
         NS_Valid = (it_Identifier (ex_item ''Maps'' [] 9) \<noteq> [])\<rparr>"
    by blast
  ultimately show ?thesis by (simp add: ex_item_def)
qed

text \<open>
  C7, as the claim has it, fails for the two sizes. A reported entry that carries no
  bundle size and no dynamic size (the decoded fields are 0) and no bundle identifier is
  acknowledged without error; its row has the identifier absent, but both sizes present
  with the number 0.
\<close>

theorem C7_counterexample:
  "it_BundleSize (ex_item ''Maps'' [] 0) = 0
   \<and> it_DynamicSize (ex_item ''Maps'' [] 0) = 0
   \<and> snd (fst (Acknowledge (ex_response ''c1'' ''S1'' [ex_item ''Maps'' [] 0])
        (ex_world [ex_payload ''c1'' ''InstalledApplicationList'']
           [ex_payload ''c1'' ''InstalledApplicationList'', ex_payload ''c2'' ''ProfileList'']
           [ex_device ''D1'' ''U1'' ''S1'' False] [ex_row ''D1'' ''Mail''] []))) = None
   \<and> map app_Identifier (applications_of ''D1''
        (snd (Acknowledge (ex_response ''c1'' ''S1'' [ex_item ''Maps'' [] 0])
           (ex_world [ex_payload ''c1'' ''InstalledApplicationList'']
              [ex_payload ''c1'' ''InstalledApplicationList'', ex_payload ''c2'' ''ProfileList'']
              [ex_device ''D1'' ''U1'' ''S1'' False] [ex_row ''D1'' ''Mail''] []))))
      = [\<lparr>NS_String = [], NS_Valid = False\<rparr>]
   \<and> map app_BundleSize (applications_of ''D1''
        (snd (Acknowledge (ex_response ''c1'' ''S1'' [ex_item ''Maps'' [] 0])
           (ex_world [ex_payload ''c1'' ''InstalledApplicationList'']
              [ex_payload ''c1'' ''InstalledApplicationList'', ex_payload ''c2'' ''ProfileList'']
              [ex_device ''D1'' ''U1'' ''S1'' False] [ex_row ''D1'' ''Mail''] []))))
      = [\<lparr>NI_Int64 = 0, NI_Valid = True\<rparr>]
   \<and> map app_DynamicSize (applications_of ''D1''
        (snd (Acknowledge (ex_response ''c1'' ''S1'' [ex_item ''Maps'' [] 0])
           (ex_world [ex_payload ''c1'' ''InstalledApplicationList'']
              [ex_payload ''c1'' ''InstalledApplicationList'', ex_payload ''c2'' ''ProfileList'']
              [ex_device ''D1'' ''U1'' ''S1'' False] [ex_row ''D1'' ''Mail''] []))))
      = [\<lparr>NI_Int64 = 0, NI_Valid = True\<rparr>]"
  by (simp add: service_defs store_defs ex_defs applications_of_def)

section \<open>Failed acknowledgments and the queue\<close>

lemma reconcile_keeps:
  "reconcile rt req w = (e, w') \<Longrightarrow> commands w' = commands w \<and> queues w' = queues w"
  unfolding reconcile_def
  by (auto split: if_splits
      dest: ackQueryResponses_keeps ackInstalledApplicationList_keeps ackCertificateList_keeps)

text \<open>
  C8, as the claim has it, fails when the error comes from the auto-requeue check. The
  device is enrolled and its queue holds the one command that it acknowledges; the
  Command Store answers the lookup and the removal, and the Device Registry is then
  unavailable. \<^verbatim>\<open>Acknowledge\<close> returns the wrapped error "check and requeue", and the
  queue of the device is empty: the acknowledged command is gone.
\<close>

theorem C8_counterexample:
  "Acknowledge (ex_response ''c1'' ''S1'' [])
     (ex_world [ex_payload ''c1'' ''ProfileList''] [ex_payload ''c1'' ''ProfileList'']
        [ex_device ''D1'' ''U1'' ''S1'' True] [] [False, False, True])
   = ((0, Some (ErrorsWrap StoreUnavailable ''check and requeue'')),
      ex_world [ex_payload ''c1'' ''ProfileList''] []
        [ex_device ''D1'' ''U1'' ''S1'' True] [] [])
   \<and> queues (ex_world [ex_payload ''c1'' ''ProfileList''] [ex_payload ''c1'' ''ProfileList'']
        [ex_device ''D1'' ''U1'' ''S1'' True] [] [False, False, True]) ''U1''
     = [ex_payload ''c1'' ''ProfileList'']
   \<and> queues (ex_world [ex_payload ''c1'' ''ProfileList''] []
        [ex_device ''D1'' ''U1'' ''S1'' True] [] []) ''U1'' = []"
  by (simp add: service_defs store_defs ex_defs fun_eq_iff)

text \<open>
  C8, as the code has it. A failing \<^verbatim>\<open>Acknowledge\<close> returns the error of one of three
  stages. If it is the error of the reconciliation routine, or of the removal itself, the
  queues are those from before the call, so the acknowledged command is still queued.
  Otherwise the removal succeeded with a remaining count of zero and the error is that of
  the auto-requeue check: the queue of the device is then empty, the other queues
  unchanged.
\<close>

theorem C8_failed_acknowledge:
  assumes "Find (r_CommandUUID req) w = ((p, fe), w1)"
    and "reconcile (RequestType (Command p)) req w1 = (re, w2)"
    and "DeleteCommand (r_UDID req) (r_CommandUUID req) w2 = ((tot, de), w3)"
    and "Acknowledge req w = ((n, Some err), w')"
  shows "(re = Some err \<and> w' = w2 \<and> queues w' = queues w)
       \<or> (re = None \<and> de = Some err \<and> w' = w3 \<and> queues w' = queues w)
       \<or> (re = None \<and> de = None \<and> tot = 0
            \<and> checkRequeue (r_UDID req) w3 = ((n, Some err), w')
            \<and> queues w' = (queues w)(r_UDID req := []))"
proof -
  from Find_keeps[OF assms(1)] reconcile_keeps[OF assms(2)]
  have q2: "queues w2 = queues w" by simp
  show ?thesis
  proof (cases re)
    case (Some e)
    with assms(1,2,4) have "err = e" "w' = w2" by (simp_all add: Acknowledge_def)
    with Some q2 show ?thesis by simp
  next
    case None
    with assms(1,2,4) have r: "removeAndRequeue req w2 = ((n, Some err), w')"
      by (simp add: Acknowledge_def)
    show ?thesis
    proof (cases de)
      case (Some e)
      with r assms(3) have "err = e" "w' = w3" by (simp_all add: removeAndRequeue_def)
      moreover from DeleteCommand_failed[of "r_UDID req" "r_CommandUUID req" w2 tot e w3]
        assms(3) Some
      have "queues w3 = queues w2" by simp
      ultimately show ?thesis using \<open>re = None\<close> Some q2 by simp
    next
      case dn: None
      with r assms(3) have z: "tot = 0" and c: "checkRequeue (r_UDID req) w3 = ((n, Some err), w')"
        by (auto simp: removeAndRequeue_def split: if_splits)
      from DeleteCommand_ok[of "r_UDID req" "r_CommandUUID req" w2 tot w3] assms(3) dn
      have q3: "queues w3 = (queues w2)(r_UDID req :=
                  filter (\<lambda>p. CommandUUID p \<noteq> r_CommandUUID req) (queues w2 (r_UDID req)))"
        and l: "tot = int (length (queues w3 (r_UDID req)))"
        by simp_all
      from l z have "queues w3 (r_UDID req) = []" by simp
      with q3 have "queues w3 = (queues w2)(r_UDID req := [])"
        by (metis fun_upd_same fun_upd_upd)
      with checkRequeue_failed[OF c] q2 have "queues w' = (queues w)(r_UDID req := [])"
        by simp
      with \<open>re = None\<close> dn z c show ?thesis by simp
    qed
  qed
qed

theorem C8_witness:
  "Acknowledge (ex_response ''c1'' ''S1'' [ex_item ''Maps'' [] 0])
     (ex_world [ex_payload ''c1'' ''InstalledApplicationList'']
        [ex_payload ''c1'' ''InstalledApplicationList'']
        [ex_device ''D1'' ''U1'' ''S1'' True] [] [False, True])
   = ((0, Some (ErrorsWrap StoreUnavailable ''getting a device record by udid'')),
      ex_world [ex_payload ''c1'' ''InstalledApplicationList'']
        [ex_payload ''c1'' ''InstalledApplicationList'']
        [ex_device ''D1'' ''U1'' ''S1'' True] [] [])
   \<and> queues (ex_world [ex_payload ''c1'' ''InstalledApplicationList'']
        [ex_payload ''c1'' ''InstalledApplicationList'']
        [ex_device ''D1'' ''U1'' ''S1'' True] [] [])
     = queues (ex_world [ex_payload ''c1'' ''InstalledApplicationList'']
        [ex_payload ''c1'' ''InstalledApplicationList'']
        [ex_device ''D1'' ''U1'' ''S1'' True] [] [False, True])"
proof -
  let ?c = "ex_payload ''c1'' ''InstalledApplicationList''"
  let ?d = "ex_device ''D1'' ''U1'' ''S1'' True"
  let ?w = "ex_world [?c] [?c] [?d] [] [False, True]"
  let ?w1 = "ex_world [?c] [?c] [?d] [] [True]"
  let ?w2 = "ex_world [?c] [?c] [?d] [] []"
  let ?req = "ex_response ''c1'' ''S1'' [ex_item ''Maps'' [] 0]"
  let ?e = "ErrorsWrap StoreUnavailable ''getting a device record by udid''"
  have f: "Find (r_CommandUUID ?req) ?w = ((?c, None), ?w1)"
    by (simp add: store_defs ex_defs)
  have r: "reconcile (RequestType (Command ?c)) ?req ?w1 = (Some ?e, ?w2)"
    by (simp add: service_defs store_defs ex_defs)
  have d: "DeleteCommand (r_UDID ?req) (r_CommandUUID ?req) ?w2
      = ((0, None), snd (DeleteCommand (r_UDID ?req) (r_CommandUUID ?req) ?w2))"
    by (simp add: store_defs ex_defs)
  have a: "Acknowledge ?req ?w = ((0, Some ?e), ?w2)"
    by (simp add: Acknowledge_def f r)
  from C8_failed_acknowledge[OF f r d a] have "queues ?w2 = queues ?w" by blast
  with a show ?thesis by simp
qed

section \<open>A failing insert in the middle of the reported list\<close>

text \<open>
  C10. Let the resolved request type be InstalledApplicationList, the device be found and
  its rows be deleted, and let the inserts of the first \<open>i\<close> reported entries succeed and
  the insert of entry \<open>i\<close> fail. Then the routine returns the error "inserting an
  application for device", the rows of the device are exactly those of the first \<open>i\<close>
  entries, each row carrying the name, the three strings and the two sizes of its entry,
  and \<^verbatim>\<open>Acknowledge\<close> returns that error without touching the queues.
\<close>

theorem C10_insert_fails_at_entry:
  assumes "Find (r_CommandUUID req) w = ((p, fe), w1)"
    and "RequestType (Command p) = ''InstalledApplicationList''"
    and "GetDeviceByUDID (r_UDID req) w1 = (Inr dev, w2)"
    and "DeleteDeviceApplications (d_UUID dev) w2 = (None, w3)"
    and "i < length (r_InstalledApplicationList req)"
    and "insertApps (d_UUID dev) (take i (r_InstalledApplicationList req)) w3 = (None, w4)"
    and "NewDeviceApp (newApp (d_UUID dev) (r_InstalledApplicationList req ! i)) w4
           = (Some err, w5)"
  shows "ackInstalledApplicationList req w1
           = (Some (FmtErrorf ''inserting an application for device: %s'' err), w5)
       \<and> applications_of (d_UUID dev) w5
           = map (newApp (d_UUID dev)) (take i (r_InstalledApplicationList req))
       \<and> Acknowledge req w
           = ((0, Some (FmtErrorf ''inserting an application for device: %s'' err)), w5)
       \<and> queues w5 = queues w
       \<and> (\<forall>u x. app_DeviceUUID (newApp u x) = u
            \<and> app_Name (newApp u x) = it_Name x
            \<and> app_Identifier (newApp u x)
                = \<lparr>NS_String = it_Identifier x, NS_Valid = (it_Identifier x \<noteq> [])\<rparr>
            \<and> app_ShortVersion (newApp u x)
                = \<lparr>NS_String = it_ShortVersion x, NS_Valid = (it_ShortVersion x \<noteq> [])\<rparr>
            \<and> app_Version (newApp u x)
                = \<lparr>NS_String = it_Version x, NS_Valid = (it_Version x \<noteq> [])\<rparr>
            \<and> app_BundleSize (newApp u x) = \<lparr>NI_Int64 = it_BundleSize x, NI_Valid = True\<rparr>
            \<and> app_DynamicSize (newApp u x) = \<lparr>NI_Int64 = it_DynamicSize x, NI_Valid = True\<rparr>)"
proof -
  let ?L = "r_InstalledApplicationList req"
  let ?u = "d_UUID dev"
  let ?e = "FmtErrorf ''inserting an application for device: %s'' err"
  from assms(5) have L: "?L = take i ?L @ (?L ! i) # drop (Suc i) ?L"
    by (rule id_take_nth_drop)
  have "insertApps ?u (take i ?L @ (?L ! i) # drop (Suc i) ?L) w3 = (Some ?e, w5)"
    by (simp add: insertApps_append assms(6,7))
  with L have ins: "insertApps ?u ?L w3 = (Some ?e, w5)" by simp
  then have r: "ackInstalledApplicationList req w1 = (Some ?e, w5)"
    by (simp add: ackInstalledApplicationList_def assms(3,4))
  then have a: "Acknowledge req w = ((0, Some ?e), w5)"
    by (simp add: Acknowledge_def assms(1,2) reconcile_def)
  from assms(4) have "apps w3 = filter (\<lambda>a. app_DeviceUUID a \<noteq> ?u) (apps w2)"
    by (auto simp: DeleteDeviceApplications_def store_call_eq split: if_splits)
  with insertApps_ok[OF assms(6)] NewDeviceApp_failed[OF assms(7)]
  have "apps w5 = filter (\<lambda>a. app_DeviceUUID a \<noteq> ?u) (apps w2) @ map (newApp ?u) (take i ?L)"
    by simp
  from applications_of_rows[OF this]
  have rows: "applications_of ?u w5 = map (newApp ?u) (take i ?L)" by simp
  from ackInstalledApplicationList_keeps[OF r] Find_keeps[OF assms(1)]
  have "queues w5 = queues w" by simp
  with r rows a show ?thesis by (simp add: newApp_def NullInt64_Scan_def)
qed

theorem C10_witness:
  "Acknowledge
     (ex_response ''c1'' ''S1''
        [ex_item ''Notes'' ''com.example.notes'' 5, ex_item ''Maps'' [] 9, ex_item ''Clock'' [] 0])
     (ex_world [ex_payload ''c1'' ''InstalledApplicationList'']
        [ex_payload ''c1'' ''InstalledApplicationList'']
        [ex_device ''D1'' ''U1'' ''S1'' False]
        [ex_row ''D1'' ''Mail'', ex_row ''D2'' ''Safari''] [False, False, False, False, True])
   = ((0, Some (FmtErrorf ''inserting an application for device: %s'' StoreUnavailable)),
      ex_world [ex_payload ''c1'' ''InstalledApplicationList'']
        [ex_payload ''c1'' ''InstalledApplicationList'']
        [ex_device ''D1'' ''U1'' ''S1'' False]
        [ex_row ''D2'' ''Safari'', \<lparr>app_DeviceUUID = ''D1'', app_Name = ''Notes'',
            app_Identifier = \<lparr>NS_String = ''com.example.notes'', NS_Valid = True\<rparr>,
            app_ShortVersion = \<lparr>NS_String = [], NS_Valid = False\<rparr>,
            app_Version = \<lparr>NS_String = ''1.0'', NS_Valid = True\<rparr>,
            app_BundleSize = \<lparr>NI_Int64 = 5, NI_Valid = True\<rparr>,
            app_DynamicSize = \<lparr>NI_Int64 = 0, NI_Valid = True\<rparr>\<rparr>] [])
   \<and> applications_of ''D1''
       (ex_world [ex_payload ''c1'' ''InstalledApplicationList'']
          [ex_payload ''c1'' ''InstalledApplicationList'']
          [ex_device ''D1'' ''U1'' ''S1'' False]
          [ex_row ''D2'' ''Safari'', \<lparr>app_DeviceUUID = ''D1'', app_Name = ''Notes'',
            app_Identifier = \<lparr>NS_String = ''com.example.notes'', NS_Valid = True\<rparr>,
            app_ShortVersion = \<lparr>NS_String = [], NS_Valid = False\<rparr>,
            app_Version = \<lparr>NS_String = ''1.0'', NS_Valid = True\<rparr>,
            app_BundleSize = \<lparr>NI_Int64 = 5, NI_Valid = True\<rparr>,
            app_DynamicSize = \<lparr>NI_Int64 = 0, NI_Valid = True\<rparr>\<rparr>] [])
     = [\<lparr>app_DeviceUUID = ''D1'', app_Name = ''Notes'',
            app_Identifier = \<lparr>NS_String = ''com.example.notes'', NS_Valid = True\<rparr>,
            app_ShortVersion = \<lparr>NS_String = [], NS_Valid = False\<rparr>,
            app_Version = \<lparr>NS_String = ''1.0'', NS_Valid = True\<rparr>,
            app_BundleSize = \<lparr>NI_Int64 = 5, NI_Valid = True\<rparr>,
            app_DynamicSize = \<lparr>NI_Int64 = 0, NI_Valid = True\<rparr>\<rparr>]"
proof -
  let ?c = "ex_payload ''c1'' ''InstalledApplicationList''"
  let ?d = "ex_device ''D1'' ''U1'' ''S1'' False"
  let ?n = "ex_item ''Notes'' ''com.example.notes'' 5"
  let ?L = "[?n, ex_item ''Maps'' [] 9, ex_item ''Clock'' [] 0]"
  let ?old = "[ex_row ''D1'' ''Mail'', ex_row ''D2'' ''Safari'']"
  let ?w = "ex_world [?c] [?c] [?d] ?old [False, False, False, False, True]"
  let ?w1 = "ex_world [?c] [?c] [?d] ?old [False, False, False, True]"
  let ?w2 = "ex_world [?c] [?c] [?d] ?old [False, False, True]"
  let ?w3 = "ex_world [?c] [?c] [?d] [ex_row ''D2'' ''Safari''] [False, True]"
  let ?w4 = "ex_world [?c] [?c] [?d] [ex_row ''D2'' ''Safari'', newApp ''D1'' ?n] [True]"
  let ?w5 = "ex_world [?c] [?c] [?d] [ex_row ''D2'' ''Safari'', newApp ''D1'' ?n] []"
  let ?req = "ex_response ''c1'' ''S1'' ?L"
  have f: "Find (r_CommandUUID ?req) ?w = ((?c, None), ?w1)"
    by (simp add: store_defs ex_defs)
  have t: "RequestType (Command ?c) = ''InstalledApplicationList''"
    by (simp add: ex_payload_def)
  have g: "GetDeviceByUDID (r_UDID ?req) ?w1 = (Inr ?d, ?w2)"
    by (simp add: store_defs ex_defs)
  have u: "d_UUID ?d = ''D1''" and L: "r_InstalledApplicationList ?req = ?L"
    by (simp_all add: ex_defs)
  have d: "DeleteDeviceApplications (d_UUID ?d) ?w2 = (None, ?w3)"
    by (simp add: store_defs ex_defs)
  have i: "1 < length (r_InstalledApplicationList ?req)"
    by (simp add: L)
  have p: "insertApps (d_UUID ?d) (take 1 (r_InstalledApplicationList ?req)) ?w3 = (None, ?w4)"
    by (simp add: u L store_defs ex_world_def)
  have n: "NewDeviceApp (newApp (d_UUID ?d) (r_InstalledApplicationList ?req ! 1)) ?w4
      = (Some StoreUnavailable, ?w5)"
    by (simp add: u L store_defs ex_world_def)
  from C10_insert_fails_at_entry[OF f t g d i p n]
  have "Acknowledge ?req ?w
      = ((0, Some (FmtErrorf ''inserting an application for device: %s'' StoreUnavailable)), ?w5)
      \<and> applications_of ''D1'' ?w5 = map (newApp ''D1'') (take 1 ?L)"
    by (simp add: u L)
  then show ?thesis
    by (simp add: newApp_def NullInt64_Scan_def ex_item_def)
qed

section \<open>The replace routines between their store calls\<close>







end
